theory Spec2Isabelle
  imports Main "HOL-Library.Word"
begin

unbundle bit_operations_syntax

section \<open>Locksmith (\<open>lksmith.c\<close>): a shallow embedding\<close>

text \<open>
  The file \<open>lksmith.c\<close> is an early draft of the Locksmith lock-order checker. Each C
  function below is translated statement by statement. Results of the C library
  (\<open>realloc\<close>, \<open>calloc\<close>, the pthread calls) are inputs of the model: the caller of a
  modelled function says what the library returned. The internal mutexes
  \<open>g_internal_lock\<close> and \<open>g_tls_lock\<close> are not modelled: every function is followed
  on one thread, and a write by another thread is an explicit input where the code is
  written against one (the compare-and-swap of \<open>lksmith_mutex_destroy\<close>).

  The draft is not accepted by a C compiler. Where a name does not resolve, the model
  reads the declaration that the statement plainly refers to (\<open>mutex\<close> is the parameter
  \<open>__mutex\<close>, \<open>(*data)->new_size\<close> is the field \<open>before_size\<close>, \<open>goto error:\<close> is
  \<open>goto error;\<close>). Everything else is kept as written, also where it looks unintended.
\<close>

subsection \<open>Outcomes of a C function\<close>

text \<open>
  \<open>Returns v\<close>: a \<open>return\<close> statement was executed (or the end of a \<open>void\<close> function was
  reached). \<open>NoValue\<close>: control reached the closing brace of a function that must return
  a value, so the caller receives no defined value. \<open>Fault\<close>: the function read or wrote
  through a null pointer or outside an allocated block, or gave \<open>realloc\<close> an address
  that no allocation returned; the C standard leaves what follows undefined.
\<close>

datatype 'a outcome = Returns 'a | NoValue | Fault

subsection \<open>Constants of the platform and of \<open>lksmith.h\<close>\<close>

text \<open>The \<open>errno\<close> values are those of Linux.\<close>

definition EIO :: int where "EIO = 5"
definition ENOMEM :: int where "ENOMEM = 12"
definition EINVAL :: int where "EINVAL = 22"
definition ENAMETOOLONG :: int where "ENAMETOOLONG = 36"

text \<open>
  Modelled from the spec: the error codes of \<open>lksmith.h\<close>, which is not among the
  sources. Only the four codes that \<open>lksmith.c\<close> mentions are needed; their numeric
  values are not used, except that they are positive (a negated code is told apart from
  a lock id by its sign).
\<close>

datatype lksmith_error =
    LKSMITH_ERROR_OOM
  | LKSMITH_ERROR_CREATE_WHILE_IN_USE
  | LKSMITH_ERROR_DESTROY_WHILE_IN_USE
  | LKSMITH_ERROR_MULTIPLE_DESTROY

definition LKSMITH_BEFORE_MIN :: nat where
  "LKSMITH_BEFORE_MIN = 16"

fun lksmith_error_to_errno :: "lksmith_error \<Rightarrow> int" where
  "lksmith_error_to_errno LKSMITH_ERROR_OOM = ENOMEM"
| "lksmith_error_to_errno LKSMITH_ERROR_DESTROY_WHILE_IN_USE = EINVAL"
| "lksmith_error_to_errno LKSMITH_ERROR_CREATE_WHILE_IN_USE = EINVAL"
| "lksmith_error_to_errno LKSMITH_ERROR_MULTIPLE_DESTROY = EIO"

subsection \<open>Formatted output\<close>

text \<open>
  \<open>dec_digits n\<close> is the decimal numeral of \<open>n\<close>; \<open>fmt_d\<close> is the conversion \<open>%d\<close> of
  \<open>printf\<close>.
\<close>

function dec_digits :: "nat \<Rightarrow> string" where
  "dec_digits n =
     (if n < 10 then [''0123456789'' ! n]
      else dec_digits (n div 10) @ [''0123456789'' ! (n mod 10)])"
  by pat_completeness auto
termination
  by (relation "measure id") auto

declare dec_digits.simps [simp del]

definition fmt_d :: "int \<Rightarrow> string" where
  "fmt_d i = (if i < 0 then CHR ''-'' # dec_digits (nat (- i)) else dec_digits (nat i))"

text \<open>
  \<open>snprintf str n s\<close>: the memory at \<open>str\<close> after \<open>snprintf(str, n, ...)\<close> whose
  formatted text is \<open>s\<close>, and the value returned. At most \<open>n\<close> bytes are written, the
  last of them the terminating zero byte; the value returned is the length of the whole
  text, written or not. The list \<open>str\<close> is the memory from the address \<open>str\<close> on.
\<close>

definition snprintf :: "char list \<Rightarrow> nat \<Rightarrow> string \<Rightarrow> char list \<times> int" where
  "snprintf str n s =
     (if n = 0 then str
      else take (min (length s) (n - 1)) s @ [CHR 0x00] @
           drop (min (length s) (n - 1) + 1) str,
      int (length s))"

subsection \<open>The version query\<close>

text \<open>
  \<open>LKSMITH_API_VERSION\<close> is a macro of \<open>lksmith.h\<close>, which is not among the sources: it
  is the parameter \<open>api\<close>. The parameter \<open>ver\<close> of the C function is not mentioned in
  its body.
\<close>

definition lksmith_get_version :: "32 word \<Rightarrow> 32 word" where
  "lksmith_get_version api = api"

definition lksmith_verion_to_str ::
  "32 word \<Rightarrow> 32 word \<Rightarrow> char list \<Rightarrow> nat \<Rightarrow> int \<times> char list" where
  "lksmith_verion_to_str api ver str str_len =
     (let (str', res) =
            snprintf str str_len
              (fmt_d (uint (drop_bit 16 api AND 0xffff)) @ ''.'' @
               fmt_d (uint (api AND 0xffff)))
      in if res < 0 then (- EIO, str')
         else if res \<ge> int str_len then (- ENAMETOOLONG, str')
         else (0, str'))"

text \<open>
  The text that the specification calls "MAJOR.MINOR": the two 16-bit halves of a packed
  version, in decimal, separated by a dot. This definition follows the specification's
  words; the theorems compare it with what the code writes.
\<close>

definition MAJOR_MINOR :: "32 word \<Rightarrow> string" where
  "MAJOR_MINOR v = dec_digits (unat v div 65536) @ ''.'' @ dec_digits (unat v mod 65536)"

subsection \<open>The bit-field macros\<close>

text \<open>
  Modelled from the spec: the macros of \<open>util/bitfield.h\<close>, which is not among the
  sources ("test/set bit, compute byte footprint for N bits"). Bit \<open>i\<close> of a bit field
  is bit \<open>i mod 8\<close> of its byte \<open>i div 8\<close>, the layout behind the byte counts
  \<open>(n + 7) / 8\<close> of \<open>lksmith_realloc_lock_data\<close>. A bit field is a pointer to bytes:
  \<open>None\<close> is the null pointer, \<open>Some bs\<close> an allocated block that holds the bytes
  \<open>bs\<close>. An access outside the block is a \<open>Fault\<close>.
\<close>

type_synonym bitfield = "8 word list option"

definition BITFIELD_MEM :: "nat \<Rightarrow> nat" where
  "BITFIELD_MEM n = (n + 7) div 8"

definition BITFIELD_TEST :: "bitfield \<Rightarrow> nat \<Rightarrow> bool outcome" where
  "BITFIELD_TEST bf i =
     (case bf of
        None \<Rightarrow> Fault
      | Some bs \<Rightarrow>
          if i div 8 < length bs then Returns (bit (bs ! (i div 8)) (i mod 8)) else Fault)"

definition BITFIELD_SET :: "bitfield \<Rightarrow> nat \<Rightarrow> bitfield outcome" where
  "BITFIELD_SET bf i =
     (case bf of
        None \<Rightarrow> Fault
      | Some bs \<Rightarrow>
          if i div 8 < length bs
          then Returns (Some (bs[i div 8 := bs ! (i div 8) OR push_bit (i mod 8) 1]))
          else Fault)"

subsection \<open>Data structures and globals\<close>

text \<open>
  Pointers to heap blocks and to mutex objects are addresses. The field \<open>id\<close> of
  \<open>struct lksmith_lock_data\<close> is \<open>lock_id\<close> here, the two \<open>name\<close> fields are
  \<open>lock_name\<close> and \<open>thread_name\<close>. A \<open>char\<close> array that holds a C string is the
  string. \<open>before\<close> is the flexible array at the end of the block: as many bytes as
  were allocated for it.
\<close>

type_synonym addr = nat

record lksmith_lock_data =
  lock_name :: string
  nlock :: "64 word"
  lock_id :: "32 word"
  before_size :: nat
  before :: "8 word list"

record lksmith_tls =
  thread_name :: string
  held_size :: nat
  held :: bitfield

text \<open>
  An error callback is a function pointer. Calling one is recorded in \<open>cb_calls\<close>:
  which callback was called, with which code and which message.
\<close>

datatype lksmith_error_cb = lksmith_error_cb_to_stderr | user_error_cb nat

text \<open>
  The globals of \<open>lksmith.c\<close> (\<open>g_tls_key_init\<close>, \<open>g_error_cb\<close>, \<open>g_locks\<close>,
  \<open>g_locks_size\<close>, \<open>g_locks_used\<close>), the heap blocks that hold lock data and
  thread-local data, the field \<open>info.data\<close> of every mutex object and whether its
  pthread mutex is locked, the calling thread's value under \<open>g_tls_key\<close> and its
  variable \<open>t_improved_tls\<close>, and the calls made to error callbacks so far, oldest first.
  The mutex objects belong to the caller; everything else is written by \<open>lksmith.c\<close>
  only.
\<close>

record world =
  g_tls_key_init :: bool
  g_error_cb :: lksmith_error_cb
  g_locks :: "addr option list option"
  g_locks_size :: nat
  g_locks_used :: bitfield
  lock_blocks :: "addr \<Rightarrow> lksmith_lock_data option"
  tls_blocks :: "addr \<Rightarrow> lksmith_tls option"
  mutex_data :: "addr \<Rightarrow> addr option"
  pthread_locked :: "addr \<Rightarrow> bool"
  tls_specific :: "addr option"
  t_improved_tls :: "addr option"
  cb_calls :: "(lksmith_error_cb \<times> lksmith_error \<times> string) list"

text \<open>
  The state in which a process starts: the static initialisers of the globals, no heap
  block, and mutex objects that are zeroed and not locked.
\<close>

definition process_start :: world where
  "process_start =
     \<lparr>g_tls_key_init = False, g_error_cb = lksmith_error_cb_to_stderr,
      g_locks = None, g_locks_size = 0, g_locks_used = None,
      lock_blocks = (\<lambda>_. None), tls_blocks = (\<lambda>_. None), mutex_data = (\<lambda>_. None),
      pthread_locked = (\<lambda>_. False), tls_specific = None, t_improved_tls = None, cb_calls = []\<rparr>"

text \<open>
  Constants of \<open>lksmith.h\<close> and \<open>config.h\<close>, which are not among the sources: they are
  parameters.
\<close>

record config =
  LKSMITH_LOCK_NAME_MAX :: nat
  LKSMITH_THREAD_NAME_MAX :: nat
  HAVE_IMPROVED_TLS :: bool

text \<open>
  The C string that a buffer of \<open>n\<close> bytes holds after \<open>snprintf(buf, n, "%s", s)\<close>,
  where it held \<open>old\<close> before.
\<close>

definition c_str_copy :: "nat \<Rightarrow> string \<Rightarrow> string \<Rightarrow> string" where
  "c_str_copy n old s = (if n = 0 then old else take (n - 1) s)"

subsection \<open>Error reporting\<close>

text \<open>
  \<open>msg\<close> is the text that the format and its arguments produce, cut to the 1024 bytes of
  \<open>buf\<close>. (The source calls \<open>vsnprintf(buf, sizeof(buf), ap)\<close>; the model reads
  \<open>vsnprintf(buf, sizeof(buf), fmt, ap)\<close>.)
\<close>

definition lksmith_print_error_unlocked :: "lksmith_error \<Rightarrow> string \<Rightarrow> world \<Rightarrow> world" where
  "lksmith_print_error_unlocked err msg w =
     w\<lparr>cb_calls := cb_calls w @ [(g_error_cb w, err, take 1023 msg)]\<rparr>"

definition lksmith_set_error_cb :: "lksmith_error_cb \<Rightarrow> world \<Rightarrow> world" where
  "lksmith_set_error_cb fn w = w\<lparr>g_error_cb := fn\<rparr>"

subsection \<open>Thread-local data\<close>

text \<open>
  What the library calls of \<open>get_or_create_tls\<close> return: \<open>pthread_key_create\<close>, the
  two calls of \<open>calloc\<close> (the address of the block for the structure, or null; whether
  the block for \<open>held\<close> was obtained), \<open>pthread_setspecific\<close>, the name that
  \<open>platform_create_thread_name\<close> writes and the text of \<open>terror\<close> (both of
  \<open>util/platform.h\<close>, not among the sources).
\<close>

record tls_env =
  key_create_ret :: int
  calloc_tls :: "addr option"
  calloc_held :: bool
  setspecific_ret :: int
  platform_thread_name :: string
  terror :: "int \<Rightarrow> string"

definition get_or_create_tls :: "config \<Rightarrow> tls_env \<Rightarrow> world \<Rightarrow> addr option \<times> world" where
  "get_or_create_tls c e w =
     (if HAVE_IMPROVED_TLS c \<and> t_improved_tls w \<noteq> None then (t_improved_tls w, w)
      else
        let ret = (if \<not> g_tls_key_init w then key_create_ret e else 0);
            w1 = (if \<not> g_tls_key_init w \<and> ret = 0 then w\<lparr>g_tls_key_init := True\<rparr> else w)
        in if ret \<noteq> 0 then
             (None,
              lksmith_print_error_unlocked LKSMITH_ERROR_OOM
                (''get_or_create_tls(): pthread_key_create failed with error code '' @
                 fmt_d ret @ '': '' @ terror e ret) w1)
           else if \<not> HAVE_IMPROVED_TLS c \<and> tls_specific w1 \<noteq> None then
             (tls_specific w1, w1)
           else
             (case calloc_tls e of
                None \<Rightarrow>
                  (None,
                   lksmith_print_error_unlocked LKSMITH_ERROR_OOM
                     ''get_or_create_tls(): failed to allocate memory for thread-local storage.''
                     w1)
              | Some tls \<Rightarrow>
                  if \<not> calloc_held e then
                    (None,
                     lksmith_print_error_unlocked LKSMITH_ERROR_OOM
                       ''get_or_create_tls(): failed to allocate memory for thread-local storage.''
                       w1)
                  else if setspecific_ret e \<noteq> 0 then
                    (None,
                     lksmith_print_error_unlocked LKSMITH_ERROR_OOM
                       (''get_or_create_tls(): pthread_setspecific failed with error '' @
                        fmt_d (setspecific_ret e) @ '': '' @ terror e (setspecific_ret e)) w1)
                  else
                    (Some tls,
                     w1\<lparr>tls_blocks := (tls_blocks w1)
                           (tls \<mapsto>
                              \<lparr>thread_name = platform_thread_name e,
                               held_size = LKSMITH_BEFORE_MIN,
                               held = Some (replicate (BITFIELD_MEM LKSMITH_BEFORE_MIN) 0)\<rparr>),
                        tls_specific := Some tls,
                        t_improved_tls :=
                          (if HAVE_IMPROVED_TLS c then Some tls else t_improved_tls w1)\<rparr>)))"

text \<open>
  \<open>lksmith_set_thread_name\<close>: the error is reported when \<open>tls\<close> is null, and the
  statement after the \<open>if\<close> writes through \<open>tls\<close> in every case.
\<close>

definition lksmith_set_thread_name ::
  "config \<Rightarrow> tls_env \<Rightarrow> string \<Rightarrow> world \<Rightarrow> unit outcome \<times> world" where
  "lksmith_set_thread_name c e name w =
     (let (tls, w1) = get_or_create_tls c e w;
          w2 = (if tls = None
                then lksmith_print_error_unlocked LKSMITH_ERROR_OOM
                       (''lksmith_set_thread_name('' @ name @
                        ''): failed to allocate thread-local storage.'') w1
                else w1)
      in case tls of
           None \<Rightarrow> (Fault, w2)
         | Some p \<Rightarrow>
             (case tls_blocks w2 p of
                None \<Rightarrow> (Fault, w2)
              | Some t \<Rightarrow>
                  (Returns (),
                   w2\<lparr>tls_blocks := (tls_blocks w2)
                         (p \<mapsto> t\<lparr>thread_name :=
                                  c_str_copy (LKSMITH_THREAD_NAME_MAX c) (thread_name t) name\<rparr>)\<rparr>)))"

subsection \<open>Lock data\<close>

text \<open>
  \<open>memset(&bs[off], 0, len)\<close> on a block that holds the bytes \<open>bs\<close>, and the
  difference of two values of type \<open>size_t\<close> (64 bits, wrapping).
\<close>

definition memset_zero :: "8 word list \<Rightarrow> nat \<Rightarrow> nat \<Rightarrow> 8 word list outcome" where
  "memset_zero bs off len =
     (if off + len \<le> length bs
      then Returns (take off bs @ replicate len 0 @ drop (off + len) bs)
      else Fault)"

definition size_t_minus :: "nat \<Rightarrow> nat \<Rightarrow> nat" where
  "size_t_minus a b = unat (word_of_nat a - word_of_nat b :: 64 word)"

text \<open>
  \<open>lksmith_realloc_lock_data(data, new_size)\<close>. The argument \<open>data\<close> of the model is
  the pointer \<open>*data\<close> on entry. The source passes \<open>data\<close> itself to \<open>realloc\<close>, the
  address of the pointer variable, not the block \<open>*data\<close>. The argument
  \<open>data_is_block\<close> says whether that address is the address of a block that \<open>malloc\<close>,
  \<open>calloc\<close> or \<open>realloc\<close> returned. If it is not (the address of a local or static
  variable), the call of \<open>realloc\<close> is a \<open>Fault\<close>. If it is, what \<open>realloc\<close> returns
  is the input \<open>r\<close>: null, or the address of a block and what the block holds; the
  model does not assume that this block holds the bytes of the lock data. The result
  \<open>Inl e\<close> is the return value \<open>-e\<close>, with \<open>*data\<close> as it was; \<open>Inr p\<close> is the
  return value 0, with \<open>*data = p\<close>.

  The source declares \<open>new_size\<close> twice: the parameter, a number of bits, and a local
  variable, the number of bytes of the block. The size passed to \<open>realloc\<close> and the
  length of the first \<open>memset\<close> are the local variable, since they count bytes: the whole
  block of \<open>sizeof(struct lksmith_lock_data) + BITFIELD_MEM(new_size)\<close> bytes is
  zeroed. In \<open>(new_size + 7) / 8\<close>, in the length \<open>new_byte_size - new_size\<close> of the
  second \<open>memset\<close> two lines below, and in the assignment to \<open>before_size\<close> the model
  reads the parameter. (With the local variable, which is larger, in its place the
  length of the second \<open>memset\<close> wraps around in the same way.)
\<close>

definition lksmith_realloc_lock_data ::
  "bool \<Rightarrow> addr option \<Rightarrow> (addr \<times> lksmith_lock_data) option \<Rightarrow> nat \<Rightarrow> world \<Rightarrow>
     (lksmith_error + addr) outcome \<times> world" where
  "lksmith_realloc_lock_data data_is_block data r new_size w =
     (case (case data of
              None \<Rightarrow> Returns 0
            | Some p \<Rightarrow> (case lock_blocks w p of None \<Rightarrow> Fault | Some d \<Rightarrow> Returns (before_size d))) of
        Returns old_size \<Rightarrow>
          if \<not> data_is_block then (Fault, w)
          else
            (case r of
               None \<Rightarrow> (Returns (Inl LKSMITH_ERROR_OOM), w)
             | Some (new_data, blk) \<Rightarrow>
                 if old_size = 0 then
                   (Returns (Inr new_data),
                    w\<lparr>lock_blocks := (lock_blocks w)
                         (new_data \<mapsto>
                            \<lparr>lock_name = [], nlock = 0, lock_id = 0, before_size = new_size,
                             before = replicate (BITFIELD_MEM new_size) 0\<rparr>)\<rparr>)
                 else
                   let old_byte_size = (old_size + 7) div 8;
                       new_byte_size = (new_size + 7) div 8
                   in if new_byte_size > old_byte_size then
                        (case memset_zero (before blk) old_byte_size
                                (size_t_minus new_byte_size new_size) of
                           Returns bs \<Rightarrow>
                             (Returns (Inr new_data),
                              w\<lparr>lock_blocks := (lock_blocks w)
                                   (new_data \<mapsto> blk\<lparr>before := bs, before_size := new_size\<rparr>)\<rparr>)
                         | _ \<Rightarrow> (Fault, w\<lparr>lock_blocks := (lock_blocks w)(new_data \<mapsto> blk)\<rparr>))
                      else
                        (Returns (Inr new_data),
                         w\<lparr>lock_blocks := (lock_blocks w)
                              (new_data \<mapsto> blk\<lparr>before_size := new_size\<rparr>)\<rparr>))
      | _ \<Rightarrow> (Fault, w))"

subsection \<open>Lock ids\<close>

text \<open>
  The loop of \<open>lksmith_alloc_next_lock_id\<close>, entered with the counter \<open>i\<close>: the value
  of \<open>i\<close> when the loop is left.
\<close>

function scan_locks_used :: "bitfield \<Rightarrow> nat \<Rightarrow> nat \<Rightarrow> nat outcome" where
  "scan_locks_used used n i =
     (if i < n then
        (case BITFIELD_TEST used i of
           Returns b \<Rightarrow> if \<not> b then Returns i else scan_locks_used used n (Suc i)
         | NoValue \<Rightarrow> Fault
         | Fault \<Rightarrow> Fault)
      else Returns i)"
  by pat_completeness auto
termination
  by (relation "measure (\<lambda>(used, n, i). n - i)") auto

declare scan_locks_used.simps [simp del]

text \<open>The last two statements: \<open>BITFIELD_SET(g_locks_used, i); return i;\<close>\<close>

definition alloc_mark_used :: "nat \<Rightarrow> world \<Rightarrow> (lksmith_error + nat) outcome \<times> world" where
  "alloc_mark_used i w =
     (case BITFIELD_SET (g_locks_used w) i of
        Returns u \<Rightarrow> (Returns (Inr i), w\<lparr>g_locks_used := u\<rparr>)
      | _ \<Rightarrow> (Fault, w))"

text \<open>
  \<open>lksmith_alloc_next_lock_id\<close>. The parameters \<open>new_locks_used\<close> and \<open>new_locks\<close>
  are what the two calls of \<open>realloc\<close> return (the new blocks, or null). The result
  \<open>Inl e\<close> is the return value \<open>-e\<close>, \<open>Inr i\<close> the lock id \<open>i\<close>. The condition of
  the growth branch is the one of the source, \<open>i > g_locks_size\<close>.
\<close>

definition lksmith_alloc_next_lock_id ::
  "bitfield \<Rightarrow> addr option list option \<Rightarrow> world \<Rightarrow> (lksmith_error + nat) outcome \<times> world" where
  "lksmith_alloc_next_lock_id new_locks_used new_locks w =
     (case scan_locks_used (g_locks_used w) (g_locks_size w) 0 of
        Returns i \<Rightarrow>
          if i > g_locks_size w then
            (if BITFIELD_MEM i > BITFIELD_MEM (g_locks_size w) \<and> new_locks_used = None
             then (Returns (Inl LKSMITH_ERROR_OOM), w)
             else
               let w1 = (if BITFIELD_MEM i > BITFIELD_MEM (g_locks_size w)
                         then w\<lparr>g_locks_used := new_locks_used\<rparr> else w)
               in if new_locks = None then (Returns (Inl LKSMITH_ERROR_OOM), w1)
                  else alloc_mark_used i (w1\<lparr>g_locks := new_locks, g_locks_size := i\<rparr>))
          else alloc_mark_used i w
      | _ \<Rightarrow> (Fault, w))"

subsection \<open>Creating and destroying a tracked mutex\<close>

text \<open>
  The code after the label \<open>error\<close> of \<open>lksmith_mutex_init\<close>: \<open>free(data)\<close>, the call
  of the callback, and the return value.
\<close>

definition init_error ::
  "addr option \<Rightarrow> lksmith_error \<Rightarrow> string \<Rightarrow> world \<Rightarrow> int outcome \<times> world" where
  "init_error data ret buf w =
     (Returns (lksmith_error_to_errno ret),
      w\<lparr>lock_blocks := (case data of None \<Rightarrow> lock_blocks w | Some p \<Rightarrow> (lock_blocks w)(p := None)),
        cb_calls := cb_calls w @ [(g_error_cb w, ret, buf)]\<rparr>)"

text \<open>
  \<open>lksmith_mutex_init(name, mutex, attr)\<close>. The inputs \<open>r\<close>, \<open>new_locks_used\<close> and
  \<open>new_locks\<close> are the results of \<open>realloc\<close> in the two functions it calls. The
  first call is \<open>lksmith_realloc_lock_data(&data, LKSMITH_BEFORE_MIN)\<close>, where \<open>data\<close>
  is a local variable of \<open>lksmith_mutex_init\<close>: its address is not the address of a
  block. Messages are cut to the 256 bytes of \<open>buf\<close>. The first message has a \<open>%s\<close>
  and no argument for it: the model leaves the conversion in the text.
\<close>

definition lksmith_mutex_init ::
  "config \<Rightarrow> string \<Rightarrow> addr \<Rightarrow> (addr \<times> lksmith_lock_data) option \<Rightarrow> bitfield \<Rightarrow>
     addr option list option \<Rightarrow> world \<Rightarrow> int outcome \<times> world" where
  "lksmith_mutex_init c name mutex r new_locks_used new_locks w =
     (case lksmith_realloc_lock_data False None r LKSMITH_BEFORE_MIN w of
        (Returns (Inr data), w1) \<Rightarrow>
          (case lksmith_alloc_next_lock_id new_locks_used new_locks w1 of
             (Returns (Inr next_lock_id), w2) \<Rightarrow>
               (case lock_blocks w2 data of
                  None \<Rightarrow> (Fault, w2)
                | Some d \<Rightarrow>
                    let w3 = w2\<lparr>lock_blocks := (lock_blocks w2)
                                  (data \<mapsto> d\<lparr>lock_id := word_of_nat next_lock_id,
                                             lock_name := c_str_copy (LKSMITH_LOCK_NAME_MAX c)
                                                            (lock_name d) name\<rparr>)\<rparr>
                    in (case mutex_data w3 mutex of
                          None \<Rightarrow> (Returns 0, w3\<lparr>mutex_data := (mutex_data w3)(mutex \<mapsto> data)\<rparr>)
                        | Some prev \<Rightarrow>
                            init_error (Some data) LKSMITH_ERROR_CREATE_WHILE_IN_USE
                              (take 255 (''lksmith_mutex_init('' @ name @
                                         '') this mutex has already been initialized!'')) w3))
           | (Returns (Inl e), w2) \<Rightarrow>
               init_error (Some data) LKSMITH_ERROR_OOM
                 (take 255 (''lksmith_mutex_init('' @ name @
                            '') out of memory trying to allocate a new lock id.'')) w2
           | (_, w2) \<Rightarrow> (Fault, w2))
      | (Returns (Inl e), w1) \<Rightarrow>
          init_error None LKSMITH_ERROR_OOM
            ''lksmith_mutex_init(%s) out of memory trying to allocate lksmith_lock_data.'' w1
      | (_, w1) \<Rightarrow> (Fault, w1))"

text \<open>
  The code after the label \<open>error\<close> of \<open>lksmith_mutex_destroy\<close>: while \<open>prev\<close> is not
  null it assigns \<open>ret\<close> and \<open>buf\<close> and jumps back to the label; otherwise the closing
  brace of the function follows. No callback is called and nothing is returned. A run
  that never leaves the loop is the value \<open>None\<close>.
\<close>

partial_function (option) destroy_error ::
  "addr option \<Rightarrow> lksmith_error \<Rightarrow> string \<Rightarrow> world \<Rightarrow> (int outcome \<times> world) option" where
  "destroy_error prev ret buf w =
     (if prev \<noteq> None then
        destroy_error prev LKSMITH_ERROR_CREATE_WHILE_IN_USE
          (take 255 ''lksmith_pthread_mutex_init(%s) this mutex has already been initialized!'') w
      else Some (NoValue, w))"

text \<open>
  \<open>lksmith_mutex_destroy(mutex)\<close>. The input \<open>other\<close> is what another thread does to
  \<open>mutex->info.data\<close> between the read of \<open>cur\<close> and the compare-and-swap:
  \<open>None\<close> is no write, \<open>Some v\<close> is a write of the pointer \<open>v\<close>.
\<close>

definition lksmith_mutex_destroy ::
  "config \<Rightarrow> addr \<Rightarrow> addr option option \<Rightarrow> world \<Rightarrow> (int outcome \<times> world) option" where
  "lksmith_mutex_destroy c mutex other w =
     (case mutex_data w mutex of
        None \<Rightarrow> Some (Fault, w)
      | Some cur \<Rightarrow>
          (case lock_blocks w cur of
             None \<Rightarrow> Some (Fault, w)
           | Some d \<Rightarrow>
               let name = c_str_copy (LKSMITH_LOCK_NAME_MAX c) [] (lock_name d);
                   w1 = (case other of
                           None \<Rightarrow> w
                         | Some v \<Rightarrow> w\<lparr>mutex_data := (mutex_data w)(mutex := v)\<rparr>);
                   prev = mutex_data w1 mutex;
                   w2 = (if prev = Some cur
                         then w1\<lparr>mutex_data := (mutex_data w1)(mutex := None)\<rparr> else w1)
               in if prev \<noteq> Some cur then
                    (if prev = None then
                       destroy_error prev LKSMITH_ERROR_MULTIPLE_DESTROY
                         (take 255 (''lksmith_mutex_destroy('' @ name @
                                    ''):this mutex has already been destroyed!'')) w2
                     else
                       destroy_error prev LKSMITH_ERROR_DESTROY_WHILE_IN_USE
                         (take 255 (''lksmith_mutex_destroy('' @ name @
                                    ''):this mutex was modified during its destruction!'')) w2)
                  else Some (Returns 0, w2\<lparr>lock_blocks := (lock_blocks w2)(cur := None)\<rparr>)))"

subsection \<open>Acquiring and releasing a tracked mutex\<close>


definition lksmith_pthread_mutex_trylock :: "addr \<Rightarrow> int \<Rightarrow> world \<Rightarrow> int outcome \<times> world" where
  "lksmith_pthread_mutex_trylock mutex bypass w = (NoValue, w)"

definition lksmith_pthread_mutex_timedlock :: "addr \<Rightarrow> nat \<Rightarrow> world \<Rightarrow> int outcome \<times> world" where
  "lksmith_pthread_mutex_timedlock mutex abstime w = (NoValue, w)"

definition lksmith_pthread_mutex_unlock :: "addr \<Rightarrow> world \<Rightarrow> int outcome \<times> world" where
  "lksmith_pthread_mutex_unlock mutex w = (NoValue, w)"

subsection \<open>Example states\<close>

text \<open>
  Constants for \<open>lksmith.h\<close> and \<open>config.h\<close>; two lock data blocks, where the
  \<open>before\<close> bit field of lock 0 has the bit of lock 1; a state with these two locks in
  a registry of two slots, both used, and a thread that holds lock 0; the state of a
  process that has just started, in which the field \<open>info.data\<close> of the caller's mutex
  object 0 is not null; and an environment in which \<open>calloc\<close> fails.
\<close>

definition example_config :: config where
  "example_config =
     \<lparr>LKSMITH_LOCK_NAME_MAX = 32, LKSMITH_THREAD_NAME_MAX = 16, HAVE_IMPROVED_TLS = False\<rparr>"

definition lock_A :: lksmith_lock_data where
  "lock_A =
     \<lparr>lock_name = ''A'', nlock = 0, lock_id = 0, before_size = 16, before = [0x02, 0x00]\<rparr>"

definition lock_B :: lksmith_lock_data where
  "lock_B =
     \<lparr>lock_name = ''B'', nlock = 0, lock_id = 1, before_size = 16, before = [0x00, 0x00]\<rparr>"

definition two_locks :: world where
  "two_locks =
     process_start
       \<lparr>g_tls_key_init := True,
        g_locks := Some [Some 10, Some 11], g_locks_size := 2, g_locks_used := Some [0x03],
        lock_blocks := (\<lambda>_. None)(10 \<mapsto> lock_A, 11 \<mapsto> lock_B),
        tls_blocks :=
          (\<lambda>_. None)(20 \<mapsto> \<lparr>thread_name = ''T'', held_size = 16, held = Some [0x01, 0x00]\<rparr>),
        mutex_data := (\<lambda>_. None)(0 \<mapsto> 10, 1 \<mapsto> 11),
        tls_specific := Some 20\<rparr>"

definition associated_mutex :: world where
  "associated_mutex = process_start\<lparr>mutex_data := (\<lambda>_. None)(0 \<mapsto> 10)\<rparr>"

definition no_memory :: tls_env where
  "no_memory =
     \<lparr>key_create_ret = 0, calloc_tls = None, calloc_held = False, setspecific_ret = 0,
      platform_thread_name = ''thread'', terror = (\<lambda>_. ''error'')\<rparr>"

section \<open>Properties of the version query\<close>

lemma ffff_mask: "(0xffff :: 32 word) = mask 16"
  by (simp add: mask_eq_exp_minus_1)

lemma unat_major: "unat (drop_bit 16 (v :: 32 word) AND 0xffff) = unat v div 65536"
proof -
  have lt: "unat v < 2 ^ 32"
    using unsigned_less [of v, where ?'a = nat] by simp
  then have small: "unat v div 65536 < 2 ^ 16"
    by (simp add: less_mult_imp_div_less)
  have "unat (drop_bit 16 v AND mask 16) = take_bit 16 (unat (drop_bit 16 v))"
    by (simp only: unsigned_take_bit_eq flip: take_bit_eq_mask)
  also have "unat (drop_bit 16 v) = unat v div 65536"
    by (simp add: drop_bit_eq_div unat_div)
  also have "take_bit 16 (unat v div 65536) = unat v div 65536"
    using small by (simp only: take_bit_nat_eq_self_iff)
  finally show ?thesis
    by (simp only: ffff_mask)
qed

lemma unat_minor: "unat ((v :: 32 word) AND 0xffff) = unat v mod 65536"
proof -
  have "unat (v AND mask 16) = take_bit 16 (unat v)"
    by (simp only: unsigned_take_bit_eq flip: take_bit_eq_mask)
  also have "\<dots> = unat v mod 65536"
    by (simp only: take_bit_eq_mod) simp
  finally show ?thesis
    by (simp only: ffff_mask)
qed

lemma uint_major: "uint (drop_bit 16 (v :: 32 word) AND 0xffff) = int (unat v div 65536)"
  by (simp only: unat_major [symmetric] of_nat_unat)

lemma uint_minor: "uint ((v :: 32 word) AND 0xffff) = int (unat v mod 65536)"
  by (simp only: unat_minor [symmetric] of_nat_unat)

lemma version_text:
  "fmt_d (uint (drop_bit 16 api AND 0xffff)) @ ''.'' @ fmt_d (uint (api AND 0xffff))
     = MAJOR_MINOR api"
  by (simp only: uint_major fmt_d_def MAJOR_MINOR_def) (simp add: uint_minor)

lemma snprintf_fits:
  "length s < n \<Longrightarrow>
   snprintf str n s = (s @ [CHR 0x00] @ drop (length s + 1) str, int (length s))"
  by (auto simp: snprintf_def min_def)

lemma snprintf_length:
  "n \<le> length str \<Longrightarrow> length (fst (snprintf str n s)) = length str"
  by (auto simp: snprintf_def min_def)

lemma snprintf_beyond:
  assumes "n \<le> length str"
  shows "drop n (fst (snprintf str n s)) = drop n str"
proof (cases "n = 0")
  case True
  then show ?thesis by (simp add: snprintf_def)
next
  case False
  define k where "k = min (length s) (n - 1)"
  have k: "k \<le> length s" "k < n"
    using False by (simp_all add: k_def)
  have "drop n (take k s @ [CHR 0x00] @ drop (k + 1) str) = drop (n - k) ([CHR 0x00] @ drop (k + 1) str)"
    using k by simp
  also have "\<dots> = drop (n - k - 1) (drop (k + 1) str)"
    using k by (cases "n - k") simp_all
  also have "\<dots> = drop n str"
    using k by simp
  finally show ?thesis
    using False by (simp add: snprintf_def k_def)
qed

lemma snprintf_result: "snd (snprintf str n s) = int (length s)"
  by (simp add: snprintf_def)

lemma verion_to_str_unfold:
  "lksmith_verion_to_str api ver str str_len =
     (if int str_len \<le> int (length (MAJOR_MINOR api)) then - ENAMETOOLONG else 0,
      fst (snprintf str str_len (MAJOR_MINOR api)))"
  unfolding lksmith_verion_to_str_def version_text
  by (simp add: case_prod_beta snprintf_result)

text \<open>
  What the code writes. For every compiled-in version \<open>api\<close>, every argument \<open>ver\<close>
  and every destination of at least \<open>str_len\<close> bytes: when the text "MAJOR.MINOR" of
  the compiled-in version and its terminating zero byte fit into \<open>str_len\<close> bytes, the
  operation writes exactly that text and the zero byte and returns 0; otherwise it
  returns \<open>-ENAMETOOLONG\<close>. In both cases no byte at or beyond \<open>str_len\<close> changes.
\<close>

lemma verion_to_str_api_version:
  assumes "str_len \<le> length str"
  shows "(if length (MAJOR_MINOR api) < str_len
          then lksmith_verion_to_str api ver str str_len =
                 (0, MAJOR_MINOR api @ [CHR 0x00] @ drop (length (MAJOR_MINOR api) + 1) str)
          else fst (lksmith_verion_to_str api ver str str_len) = - ENAMETOOLONG)
         \<and> length (snd (lksmith_verion_to_str api ver str str_len)) = length str
         \<and> drop str_len (snd (lksmith_verion_to_str api ver str str_len)) = drop str_len str"
proof (intro conjI)
  show "if length (MAJOR_MINOR api) < str_len
        then lksmith_verion_to_str api ver str str_len =
               (0, MAJOR_MINOR api @ [CHR 0x00] @ drop (length (MAJOR_MINOR api) + 1) str)
        else fst (lksmith_verion_to_str api ver str str_len) = - ENAMETOOLONG"
    by (simp add: verion_to_str_unfold snprintf_fits)
  show "length (snd (lksmith_verion_to_str api ver str str_len)) = length str"
    using assms by (simp add: verion_to_str_unfold snprintf_length)
  show "drop str_len (snd (lksmith_verion_to_str api ver str str_len)) = drop str_len str"
    using assms by (simp add: verion_to_str_unfold snprintf_beyond)
qed

lemma MAJOR_MINOR_1_2: "MAJOR_MINOR 0x00010002 = ''1.2''"
  by (simp add: MAJOR_MINOR_def dec_digits.simps)

lemma verion_to_str_api_version_example:
  "lksmith_verion_to_str 0x00010002 7 ''########'' 8 = (0, ''1.2'' @ [CHR 0x00] @ ''####'')
   \<and> fst (lksmith_verion_to_str 0x00010002 7 ''########'' 3) = - ENAMETOOLONG
   \<and> drop 3 (snd (lksmith_verion_to_str 0x00010002 7 ''########'' 3)) = ''#####''"
  using verion_to_str_api_version [of 8 "''########''" "0x00010002" 7]
    verion_to_str_api_version [of 3 "''########''" "0x00010002" 7]
  by (simp add: MAJOR_MINOR_1_2)

text \<open>
  Claim C7 (the code differs). The argument \<open>ver\<close> is the packed version 2.3, the
  buffer of eight bytes is large enough, and the version compiled in is 1.0: the
  operation returns 0 and writes the text "1.0", where the two halves of \<open>ver\<close> give
  "2.3".
\<close>

theorem verion_to_str_wrong_version:
  "lksmith_verion_to_str 0x00010000 0x00020003 ''########'' 8
     = (0, ''1.0'' @ [CHR 0x00] @ ''####'')
   \<and> MAJOR_MINOR 0x00020003 = ''2.3''"
  by (simp add: lksmith_verion_to_str_def snprintf_def fmt_d_def MAJOR_MINOR_def
      dec_digits.simps)

text \<open>
  Claim C10. Two calls of the version-to-string operation with the same destination and
  length, and any two \<open>ver\<close> arguments, write the same bytes and return the same value:
  the result is a function of the compiled-in version alone.
\<close>

theorem verion_to_str_ignores_ver:
  "lksmith_verion_to_str api ver1 str str_len = lksmith_verion_to_str api ver2 str str_len"
  by (simp add: lksmith_verion_to_str_def)

theorem verion_to_str_ignores_ver_witness:
  "lksmith_verion_to_str 0x00010002 0x00010002 ''########'' 8
     = lksmith_verion_to_str 0x00010002 0x00020003 ''########'' 8"
  by (rule verion_to_str_ignores_ver)

section \<open>Properties of lock-id allocation\<close>

lemmas example_states =
  process_start_def two_locks_def associated_mutex_def lock_A_def lock_B_def
  example_config_def

lemma scan_locks_used_le:
  "scan_locks_used used n i = Returns j \<Longrightarrow> i \<le> n \<Longrightarrow> j \<le> n"
proof (induction used n i rule: scan_locks_used.induct)
  case (1 used n i)
  show ?case
  proof (cases "i < n")
    case True
    with "1.prems" "1.IH" show ?thesis
      by (subst (asm) scan_locks_used.simps) (auto split: outcome.splits if_splits)
  next
    case False
    with "1.prems" show ?thesis
      by (subst (asm) scan_locks_used.simps) simp
  qed
qed

text \<open>
  When the loop is left, \<open>i\<close> is at most \<open>g_locks_size\<close>, so the condition
  \<open>i > g_locks_size\<close> is false and the growth branch is never entered.
\<close>

lemma alloc_no_growth:
  "lksmith_alloc_next_lock_id u l w =
     (case scan_locks_used (g_locks_used w) (g_locks_size w) 0 of
        Returns i \<Rightarrow> alloc_mark_used i w
      | _ \<Rightarrow> (Fault, w))"
proof (cases "scan_locks_used (g_locks_used w) (g_locks_size w) 0")
  case (Returns i)
  then have "i \<le> g_locks_size w"
    by (rule scan_locks_used_le) simp
  with Returns show ?thesis
    by (simp add: lksmith_alloc_next_lock_id_def)
qed (simp_all add: lksmith_alloc_next_lock_id_def)

lemmas alloc_eval =
  alloc_no_growth scan_locks_used.simps alloc_mark_used_def BITFIELD_SET_def
  BITFIELD_TEST_def BITFIELD_MEM_def LKSMITH_BEFORE_MIN_def

lemma alloc_frame:
  "snd (lksmith_alloc_next_lock_id u l w) =
     w\<lparr>g_locks_used := g_locks_used (snd (lksmith_alloc_next_lock_id u l w))\<rparr>"
  by (simp add: alloc_no_growth alloc_mark_used_def split: outcome.splits)

lemma alloc_two_locks:
  "lksmith_alloc_next_lock_id u l two_locks =
     (Returns (Inr 2), two_locks\<lparr>g_locks_used := Some [0x07]\<rparr>)"
  by (simp add: alloc_eval example_states)

text \<open>
  When a used-bit below \<open>g_locks_size\<close> is clear, the lowest such index is returned and
  its used-bit is set.
\<close>

lemma scan_locks_used_lowest:
  assumes "BITFIELD_TEST used j = Returns False" and "j < n" and "i \<le> j"
    and "\<And>k. i \<le> k \<Longrightarrow> k < j \<Longrightarrow> BITFIELD_TEST used k = Returns True"
  shows "scan_locks_used used n i = Returns j"
  using assms
proof (induction "j - i" arbitrary: i)
  case 0
  then have "i = j" by simp
  with "0.prems" show ?case
    by (subst scan_locks_used.simps) simp
next
  case (Suc d)
  then have lt: "i < j" by simp
  with Suc.prems have t: "BITFIELD_TEST used i = Returns True"
    by simp
  have "scan_locks_used used n (Suc i) = Returns j"
  proof (rule Suc.hyps(1))
    show "d = j - Suc i" using Suc.hyps(2) by simp
    show "Suc i \<le> j" using lt by simp
    show "BITFIELD_TEST used k = Returns True" if "Suc i \<le> k" "k < j" for k
      using that Suc.prems(4) by simp
  qed (use Suc.prems in simp_all)
  with lt Suc.prems(2) t show ?case
    by (subst scan_locks_used.simps) simp
qed

lemma BITFIELD_SET_then_TEST:
  "BITFIELD_SET bf i = Returns bf' \<Longrightarrow> BITFIELD_TEST bf' i = Returns True"
  by (auto simp: BITFIELD_SET_def BITFIELD_TEST_def bit_simps
      split: option.splits if_splits)

lemma alloc_lowest_clear:
  assumes "BITFIELD_TEST (g_locks_used w) j = Returns False" and "j < g_locks_size w"
    and "\<And>k. k < j \<Longrightarrow> BITFIELD_TEST (g_locks_used w) k = Returns True"
  shows "fst (lksmith_alloc_next_lock_id u l w) = Returns (Inr j)
         \<and> BITFIELD_TEST (g_locks_used (snd (lksmith_alloc_next_lock_id u l w))) j
             = Returns True"
proof -
  have s: "scan_locks_used (g_locks_used w) (g_locks_size w) 0 = Returns j"
    using assms by (intro scan_locks_used_lowest) simp_all
  obtain bf' where b: "BITFIELD_SET (g_locks_used w) j = Returns bf'"
    using assms(1)
    by (auto simp: BITFIELD_SET_def BITFIELD_TEST_def split: option.splits if_splits)
  from BITFIELD_SET_then_TEST [OF b] s b show ?thesis
    by (simp add: alloc_no_growth alloc_mark_used_def)
qed

text \<open>
  When every used-bit below \<open>g_locks_size\<close> is set, the loop is left with
  \<open>i = g_locks_size\<close>. If the bitmap has the \<open>BITFIELD_MEM(g_locks_size)\<close> bytes of
  its capacity and \<open>g_locks_size\<close> is a multiple of 8, the used-bit of that index lies in
  the byte after the bitmap.
\<close>

lemma scan_locks_used_full:
  "scan_locks_used used n i = Returns j \<Longrightarrow> i \<le> n \<Longrightarrow>
   (\<And>k. k < n \<Longrightarrow> BITFIELD_TEST used k = Returns True) \<Longrightarrow> j = n"
proof (induction used n i rule: scan_locks_used.induct)
  case (1 used n i)
  show ?case
  proof (cases "i < n")
    case True
    with "1.prems" "1.IH" show ?thesis
      by (subst (asm) scan_locks_used.simps) (auto split: outcome.splits if_splits)
  next
    case False
    with "1.prems" show ?thesis
      by (subst (asm) scan_locks_used.simps) simp
  qed
qed

lemma alloc_full_faults:
  assumes "g_locks_used w = Some bs" and "length bs = BITFIELD_MEM (g_locks_size w)"
    and "g_locks_size w mod 8 = 0"
    and "\<And>k. k < g_locks_size w \<Longrightarrow> BITFIELD_TEST (g_locks_used w) k = Returns True"
  shows "fst (lksmith_alloc_next_lock_id u l w) = Fault"
proof (cases "scan_locks_used (g_locks_used w) (g_locks_size w) 0")
  case (Returns j)
  then have "j = g_locks_size w"
    using assms(4) by (intro scan_locks_used_full [OF Returns]) simp_all
  moreover have "\<not> g_locks_size w div 8 < length bs"
    using assms(2,3) by (auto simp: BITFIELD_MEM_def)
  ultimately show ?thesis
    using Returns assms(1)
    by (simp add: alloc_no_growth alloc_mark_used_def BITFIELD_SET_def)
qed (simp_all add: alloc_no_growth)

text \<open>
  In a registry without slots and without a bitmap, as at the start of a process, the
  allocation of a lock id writes through the null pointer.
\<close>

lemma alloc_fresh_registry:
  assumes "g_locks_size w = 0" and "g_locks_used w = None"
  shows "lksmith_alloc_next_lock_id u l w = (Fault, w)"
  using assms
  by (simp add: alloc_no_growth scan_locks_used.simps alloc_mark_used_def BITFIELD_SET_def)

text \<open>
  Claim C4 (the code differs). Whatever the registry holds and whatever \<open>realloc\<close>
  would return, lock-id allocation leaves \<open>g_locks_size\<close>, the table \<open>g_locks\<close> and
  the number of bytes of \<open>g_locks_used\<close> as they were: nothing is grown, also when no
  clear bit exists within the current capacity.
\<close>

theorem alloc_never_grows:
  "g_locks_size (snd (lksmith_alloc_next_lock_id new_locks_used new_locks w)) = g_locks_size w
   \<and> g_locks (snd (lksmith_alloc_next_lock_id new_locks_used new_locks w)) = g_locks w
   \<and> map_option length
        (g_locks_used (snd (lksmith_alloc_next_lock_id new_locks_used new_locks w)))
       = map_option length (g_locks_used w)"
  by (simp add: alloc_no_growth alloc_mark_used_def BITFIELD_SET_def
      split: outcome.splits option.splits)

text \<open>
  Claim C8 (the code differs). In the state in which a process starts (no slot, no
  bitmap) the scan finds no clear bit, the growth branch is not taken, and the used-bit
  of index 0 is written through the null pointer \<open>g_locks_used\<close>. With eight slots,
  all used, and a bitmap of one byte, the used-bit of index 8 is written into the byte
  after the bitmap.
\<close>

theorem alloc_writes_out_of_bounds:
  "lksmith_alloc_next_lock_id new_locks_used new_locks process_start = (Fault, process_start)
   \<and> fst (lksmith_alloc_next_lock_id new_locks_used new_locks
            (process_start\<lparr>g_locks := Some (replicate 8 None), g_locks_size := 8,
                            g_locks_used := Some [0xFF]\<rparr>)) = Fault"
  by (simp add: alloc_eval process_start_def)

section \<open>Properties of \<open>lksmith_realloc_lock_data\<close>\<close>

lemma realloc_fresh:
  "lksmith_realloc_lock_data True None (Some (data, blk)) n w =
     (Returns (Inr data),
      w\<lparr>lock_blocks := (lock_blocks w)
           (data \<mapsto> \<lparr>lock_name = [], nlock = 0, lock_id = 0, before_size = n,
                      before = replicate (BITFIELD_MEM n) 0\<rparr>)\<rparr>)"
  by (simp add: lksmith_realloc_lock_data_def)

lemma realloc_oom:
  "lksmith_realloc_lock_data True None None n w = (Returns (Inl LKSMITH_ERROR_OOM), w)"
  by (simp add: lksmith_realloc_lock_data_def)

lemma realloc_oom_grow:
  "lock_blocks w p = Some d \<Longrightarrow>
   lksmith_realloc_lock_data True (Some p) None n w = (Returns (Inl LKSMITH_ERROR_OOM), w)"
  by (simp add: lksmith_realloc_lock_data_def)

text \<open>
  When \<open>data\<close> is the address of a variable, not of a block, the call of \<open>realloc\<close> is
  a \<open>Fault\<close>, whatever \<open>*data\<close> is.
\<close>

lemma realloc_of_variable:
  "lksmith_realloc_lock_data False data r n w = (Fault, w)"
  by (simp add: lksmith_realloc_lock_data_def split: option.splits)

text \<open>
  Claim C6 (the code differs). Growing the \<open>before\<close> bit field of lock 0 from 16 to 24
  bits: the old field has two bytes, the new one three, and the bytes to be zeroed are
  counted as \<open>new_byte_size - new_size\<close>, which is \<open>3 - 24\<close> in \<open>size_t\<close>. The
  \<open>memset\<close> leaves the block. This is the first statement, where \<open>data\<close> is the
  address of a block; where it is the address of a variable, \<open>realloc\<close> is not even
  given a block (the second statement).
\<close>

theorem realloc_grow_faults:
  "fst (lksmith_realloc_lock_data True (Some 10)
          (Some (12, lock_A\<lparr>before := [0x02, 0x00, 0x55]\<rparr>)) 24 two_locks) = Fault
   \<and> fst (lksmith_realloc_lock_data False (Some 10)
          (Some (12, lock_A\<lparr>before := [0x02, 0x00, 0x55]\<rparr>)) 24 two_locks) = Fault
   \<and> size_t_minus 3 24 = 2 ^ 64 - 21"
  by (simp add: lksmith_realloc_lock_data_def memset_zero_def size_t_minus_def
      example_states)

section \<open>Properties of \<open>lksmith_mutex_init\<close>\<close>

text \<open>
  Every call of \<open>lksmith_mutex_init\<close> gives \<open>realloc\<close> the address of its local
  variable \<open>data\<close>: no call returns, and no call reaches the error callback.
\<close>

lemma init_always_faults:
  "lksmith_mutex_init c name mutex r new_locks_used new_locks w = (Fault, w)"
  by (simp add: lksmith_mutex_init_def realloc_of_variable)

text \<open>
  Claim C2 (the code differs). A process has just started, and the field \<open>info.data\<close>
  of the caller's mutex object 0 is not null. \<open>lksmith_mutex_init\<close> on this mutex,
  with any name and whatever the allocator would return, ends in the call of
  \<open>realloc\<close> on the address of the local variable \<open>data\<close>: it returns no error code
  and no error callback has been called.
\<close>

theorem init_on_associated_mutex_faults:
  "mutex_data associated_mutex 0 = Some 10
   \<and> lksmith_mutex_init c name 0 r new_locks_used new_locks associated_mutex
       = (Fault, associated_mutex)
   \<and> cb_calls associated_mutex = []"
  by (simp add: init_always_faults) (simp add: associated_mutex_def process_start_def)

section \<open>Properties of \<open>lksmith_mutex_destroy\<close>\<close>

lemma destroy_error_Some_null:
  assumes "destroy_error prev ret buf w = Some y"
  shows "prev = None"
  using assms
  by (rule destroy_error.raw_induct [where P = "\<lambda>prev ret buf w y. prev = None", rotated])
     (fastforce split: if_splits)

text \<open>With \<open>prev\<close> not null, the code after the label \<open>error\<close> never ends.\<close>

lemma destroy_error_loops: "destroy_error (Some p) ret buf w = None"
proof (cases "destroy_error (Some p) ret buf w")
  case (Some y)
  then show ?thesis
    by (auto dest: destroy_error_Some_null)
qed simp

lemma destroy_error_null: "destroy_error None ret buf w = Some (NoValue, w)"
  by (subst destroy_error.simps) simp

lemma destroy_ok:
  "lksmith_mutex_destroy c 0 None two_locks =
     Some (Returns 0,
           two_locks\<lparr>lock_blocks := (\<lambda>_. None)(11 \<mapsto> lock_B),
                      mutex_data := (\<lambda>_. None)(0 := None, 1 \<mapsto> 11)\<rparr>)"
  by (simp add: lksmith_mutex_destroy_def two_locks_def process_start_def fun_upd_twist)

text \<open>
  Claim C3 (the code differs). The mutex 0 is tracked. When another thread sets its
  \<open>info.data\<close> to null between the read and the compare-and-swap, the call reaches the
  end of the function: no callback has been called and no value is returned. When another
  thread stores a different pointer there, the call never returns. When \<open>info.data\<close> is
  null already at the read, the name is read through the null pointer.
\<close>

theorem destroy_failures_not_reported:
  "lksmith_mutex_destroy c 0 (Some None) two_locks
     = Some (NoValue, two_locks\<lparr>mutex_data := (mutex_data two_locks)(0 := None)\<rparr>)
   \<and> cb_calls (two_locks\<lparr>mutex_data := (mutex_data two_locks)(0 := None)\<rparr>) = []
   \<and> lksmith_mutex_destroy c 0 (Some (Some 11)) two_locks = None
   \<and> lksmith_mutex_destroy c 0 None process_start = Some (Fault, process_start)"
  by (simp add: lksmith_mutex_destroy_def destroy_error_loops destroy_error_null
      two_locks_def process_start_def)

section \<open>Properties of \<open>lksmith_set_thread_name\<close>\<close>

text \<open>
  Claim C9 (the code differs). When \<open>get_or_create_tls\<close> returns null,
  \<open>lksmith_set_thread_name\<close> reports \<open>LKSMITH_ERROR_OOM\<close> through the callback and
  then writes the name through the null pointer.
\<close>

theorem set_thread_name_null_tls:
  assumes "fst (get_or_create_tls c e w) = None"
  shows "fst (lksmith_set_thread_name c e name w) = Fault
         \<and> cb_calls (snd (lksmith_set_thread_name c e name w))
           = cb_calls (snd (get_or_create_tls c e w)) @
             [(g_error_cb (snd (get_or_create_tls c e w)), LKSMITH_ERROR_OOM,
               take 1023 (''lksmith_set_thread_name('' @ name @
                          ''): failed to allocate thread-local storage.''))]"
  using assms
  by (simp add: lksmith_set_thread_name_def case_prod_beta lksmith_print_error_unlocked_def)

theorem set_thread_name_null_tls_witness:
  "fst (get_or_create_tls example_config no_memory process_start) = None
   \<and> fst (lksmith_set_thread_name example_config no_memory ''main'' process_start) = Fault
   \<and> cb_calls (snd (lksmith_set_thread_name example_config no_memory ''main'' process_start))
       = [(lksmith_error_cb_to_stderr, LKSMITH_ERROR_OOM,
           ''get_or_create_tls(): failed to allocate memory for thread-local storage.''),
          (lksmith_error_cb_to_stderr, LKSMITH_ERROR_OOM,
           ''lksmith_set_thread_name(main): failed to allocate thread-local storage.'')]"
proof -
  have h: "get_or_create_tls example_config no_memory process_start
      = (None,
         process_start
           \<lparr>g_tls_key_init := True,
            cb_calls :=
              [(lksmith_error_cb_to_stderr, LKSMITH_ERROR_OOM,
                ''get_or_create_tls(): failed to allocate memory for thread-local storage.'')]\<rparr>)"
    by (simp add: get_or_create_tls_def example_config_def no_memory_def process_start_def
        lksmith_print_error_unlocked_def)
  then have h1: "fst (get_or_create_tls example_config no_memory process_start) = None"
    by simp
  from set_thread_name_null_tls [OF h1, of "''main''"] show ?thesis
    using h by (simp add: process_start_def)
qed

lemma set_thread_name_ok:
  "lksmith_set_thread_name example_config
     (no_memory\<lparr>calloc_tls := Some 30, calloc_held := True\<rparr>) ''main'' process_start
   = (Returns (),
      process_start
        \<lparr>g_tls_key_init := True,
         tls_blocks :=
           (\<lambda>_. None)(30 \<mapsto> \<lparr>thread_name = ''main'', held_size = 16, held = Some [0, 0]\<rparr>),
         tls_specific := Some 30\<rparr>)"
  by (simp add: lksmith_set_thread_name_def get_or_create_tls_def example_config_def
      no_memory_def process_start_def c_str_copy_def BITFIELD_MEM_def LKSMITH_BEFORE_MIN_def
      numeral_2_eq_2)

section \<open>Properties of \<open>lksmith_pthread_mutex_lock\<close>\<close>



end
